theory Spec2Isabelle
  imports Main "HOL-Library.Sublist"
begin

section \<open>ArgumentDispatcher: \<^verbatim>\<open>gibr/cli/group.py\<close>\<close>

text \<open>
  A command-line token is a Python \<^verbatim>\<open>str\<close>: a sequence of Unicode code points. A code
  point is a natural number, so that a token may hold any character, ASCII or not. The
  token list \<^verbatim>\<open>args\<close> is a Python list, modelled as a HOL list; the rewriting passes
  return the list the Python function returns.
\<close>

type_synonym str = "nat list"

text \<open>The \<^verbatim>\<open>str\<close> of an ASCII literal of the source, such as \<^verbatim>\<open>"git"\<close>.\<close>

definition str_of :: "string \<Rightarrow> str" where
  "str_of s = map of_char s"

subsection \<open>String helpers of the Python runtime\<close>

text \<open>\<^verbatim>\<open>s.startswith(p)\<close>: \<^verbatim>\<open>p\<close> is a prefix of \<^verbatim>\<open>s\<close>.\<close>

definition startswith :: "str \<Rightarrow> str \<Rightarrow> bool" where
  "startswith s p = (take (length p) s = p)"

text \<open>
  \<^verbatim>\<open>s.isdigit()\<close>: the string has at least one character and every character is a
  digit; the empty string is not a digit string. Which code points are digits is read
  from the Unicode database of the Python runtime (the characters of numeric type Digit
  or Decimal: the ASCII digits, and also superscript digits, full-width digits and the
  digits of other scripts). That table is the parameter \<open>digit\<close>.
\<close>

definition isdigit :: "(nat \<Rightarrow> bool) \<Rightarrow> str \<Rightarrow> bool" where
  "isdigit digit s = (s \<noteq> [] \<and> list_all digit s)"

text \<open>\<^verbatim>\<open>xs.insert(i, x)\<close> for an index \<^verbatim>\<open>i \<ge> 0\<close>: an index beyond the end appends.\<close>

definition insert_at :: "nat \<Rightarrow> 'a \<Rightarrow> 'a list \<Rightarrow> 'a list" where
  "insert_at i x xs = take i xs @ x # drop i xs"

subsection \<open>The group\<close>

text \<open>\<^verbatim>\<open>GLOBAL_FLAGS = ["--verbose"]\<close>\<close>

definition GLOBAL_FLAGS :: "str list" where
  "GLOBAL_FLAGS = [str_of ''--verbose'']"

text \<open>
  \<^verbatim>\<open>is_likely_non_digit_issue(arg)\<close>:
  \<^verbatim>\<open>JiraTracker.is_jira_issue(arg) or LinearTracker.is_linear_issue(arg)\<close>.
  The two tracker predicates live in \<^verbatim>\<open>gibr.trackers\<close>; they are parameters here.
\<close>

definition is_likely_non_digit_issue ::
    "(str \<Rightarrow> bool) \<Rightarrow> (str \<Rightarrow> bool) \<Rightarrow> str \<Rightarrow> bool" where
  "is_likely_non_digit_issue is_jira_issue is_linear_issue arg =
     (is_jira_issue arg \<or> is_linear_issue arg)"

text \<open>
  \<^verbatim>\<open>handle_git_alias(args)\<close>:
  \<^verbatim>\<open>
  if args and args[0] == "git":
      args.pop(0)
      flags = [a for a in args if a in GLOBAL_FLAGS]
      rest = [a for a in args if a not in GLOBAL_FLAGS]
      return flags + rest
  return args
  \<close>
\<close>

definition handle_git_alias :: "str list \<Rightarrow> str list" where
  "handle_git_alias args =
     (if args \<noteq> [] \<and> args ! 0 = str_of ''git'' then
        (let args' = tl args;
             flags = filter (\<lambda>a. a \<in> set GLOBAL_FLAGS) args';
             rest = filter (\<lambda>a. a \<notin> set GLOBAL_FLAGS) args'
         in flags @ rest)
      else args)"

text \<open>
  \<^verbatim>\<open>handle_create_command(self, args)\<close>:
  \<^verbatim>\<open>
  for i, arg in enumerate(args):
      if not arg.startswith("--"):
          if arg not in self.commands and (
              arg.isdigit() or self.is_likely_non_digit_issue(arg)
          ):
              args.insert(i, "create")
          break
  return args
  \<close>
  The loop is \<open>create_loop\<close>, on the index \<open>i\<close>; \<^verbatim>\<open>self.commands\<close> is the
  registry, a dict from subcommand names to handlers, of which only the keys are read.
\<close>

function create_loop ::
    "(str \<rightharpoonup> 'c) \<Rightarrow> (nat \<Rightarrow> bool) \<Rightarrow> (str \<Rightarrow> bool) \<Rightarrow> (str \<Rightarrow> bool) \<Rightarrow> nat \<Rightarrow> str list
       \<Rightarrow> str list" where
  "create_loop commands digit is_jira_issue is_linear_issue i args =
     (if i < length args then
        (let arg = args ! i in
         if \<not> startswith arg (str_of ''--'') then
           (if commands arg = None \<and>
               (isdigit digit arg \<or>
                is_likely_non_digit_issue is_jira_issue is_linear_issue arg)
            then insert_at i (str_of ''create'') args
            else args)
         else create_loop commands digit is_jira_issue is_linear_issue (i + 1) args)
      else args)"
  by pat_completeness auto
termination
  by (relation
      "measure (\<lambda>(commands, digit, is_jira_issue, is_linear_issue, i, args). length args - i)")
    auto

definition handle_create_command ::
    "(str \<rightharpoonup> 'c) \<Rightarrow> (nat \<Rightarrow> bool) \<Rightarrow> (str \<Rightarrow> bool) \<Rightarrow> (str \<Rightarrow> bool) \<Rightarrow> str list
       \<Rightarrow> str list" where
  "handle_create_command commands digit is_jira_issue is_linear_issue args =
     create_loop commands digit is_jira_issue is_linear_issue 0 args"

declare create_loop.simps [simp del]

section \<open>Effects: the event trace and exceptions\<close>

text \<open>
  The workflow talks to a notification sink, to the terminal and to a git repository.
  Each such call that has an effect is an \<open>event\<close>; a run threads the list of events
  emitted so far and ends with a value or with a raised exception.
\<close>

datatype event =
    Info string | Success string | Warning string | Error string
  | Confirm string | Prompt string
  | Create_head string | Checkout string | Push string
  | Close
  | Echo string | Echo_via_pager string | Safe_echo string

text \<open>
  The exceptions of the model: \<^verbatim>\<open>click.Abort\<close>, the two exceptions of the git
  library that \<^verbatim>\<open>create_and_push_branch\<close> handles, and those it does not handle
  (\<^verbatim>\<open>TypeError\<close>, \<^verbatim>\<open>ValueError\<close>, \<^verbatim>\<open>OSError\<close>).
\<close>

datatype exn =
    Abort
  | InvalidGitRepositoryError
  | GitCommandError string
  | TypeError
  | ValueError
  | OSError

type_synonym 'a io = "event list \<Rightarrow> (exn + 'a) \<times> event list"

definition ret :: "'a \<Rightarrow> 'a io" where
  "ret x t = (Inr x, t)"

definition raise :: "exn \<Rightarrow> 'a io" where
  "raise e t = (Inl e, t)"

definition emit :: "event \<Rightarrow> unit io" where
  "emit ev t = (Inr (), t @ [ev])"

text \<open>Sequencing: a raised exception skips the rest.\<close>

definition bind_io :: "'a io \<Rightarrow> ('a \<Rightarrow> 'b io) \<Rightarrow> 'b io" where
  "bind_io m f t = (case m t of (Inl e, t') \<Rightarrow> (Inl e, t') | (Inr x, t') \<Rightarrow> f x t')"

definition seq_io :: "unit io \<Rightarrow> 'b io \<Rightarrow> 'b io" where
  "seq_io m k = bind_io m (\<lambda>_. k)"

text \<open>\<^verbatim>\<open>try: m except ...: h\<close>, where \<open>h\<close> re-raises what no clause matches.\<close>

definition catch_io :: "'a io \<Rightarrow> (exn \<Rightarrow> 'a io) \<Rightarrow> 'a io" where
  "catch_io m h t = (case m t of (Inl e, t') \<Rightarrow> h e t' | (Inr x, t') \<Rightarrow> (Inr x, t'))"

subsection \<open>The notification sink \<^verbatim>\<open>gibr.notify\<close>\<close>

text \<open>
  Modelled from the spec: \<^verbatim>\<open>gibr/notify.py\<close> is not among the sources. The spec says
  the sink has the severity-tagged emit operations info, success, warning and error, and
  that error aborts the current command after emitting; \<^verbatim>\<open>tests/test_notify.py\<close>
  says the same (\<^verbatim>\<open>error\<close> prints and then raises \<^verbatim>\<open>click.Abort\<close>), and that
  each operation prints its message with \<^verbatim>\<open>click.secho(text, fg=...)\<close>, without
  \<^verbatim>\<open>err=True\<close>: the message goes to standard output.
\<close>

definition info :: "string \<Rightarrow> unit io" where
  "info msg = emit (Info msg)"

definition success :: "string \<Rightarrow> unit io" where
  "success msg = emit (Success msg)"

definition warning :: "string \<Rightarrow> unit io" where
  "warning msg = emit (Warning msg)"

definition error :: "string \<Rightarrow> unit io" where
  "error msg = seq_io (emit (Error msg)) (raise Abort)"

section \<open>BranchWorkflow: \<^verbatim>\<open>gibr/git.py\<close>\<close>

subsection \<open>The repository handle and the outside world\<close>

text \<open>
  The state of the repository behind the \<^verbatim>\<open>Repo\<close> handle: what
  \<^verbatim>\<open>repo.is_dirty(...)\<close>, \<^verbatim>\<open>repo.head.is_valid()\<close> and \<^verbatim>\<open>repo.head.is_detached\<close>
  answer, the name of the branch HEAD points to when it is not detached
  (\<open>active_branch\<close>), and the names in \<^verbatim>\<open>repo.heads\<close>.
\<close>

record repo =
  is_dirty :: bool
  head_is_valid :: bool
  head_is_detached :: bool
  active_branch :: string
  heads :: "string list"

text \<open>
  \<^verbatim>\<open>repo.active_branch.name\<close>: the git library's \<^verbatim>\<open>Repo.active_branch\<close> raises
  \<^verbatim>\<open>TypeError\<close> when HEAD is detached, since HEAD then points to no branch; otherwise
  it is the branch HEAD points to.
\<close>

definition active_branch_name :: "repo \<Rightarrow> string io" where
  "active_branch_name repo =
     (if head_is_detached repo then raise TypeError else ret (active_branch repo))"

text \<open>
  The answers of the outside world to the calls the workflow makes:
  \<^item> \<open>repo_found\<close>: the handle \<^verbatim>\<open>Repo(".", search_parent_directories=True)\<close> gives,
    or \<open>None\<close> when it raises \<^verbatim>\<open>InvalidGitRepositoryError\<close>;
  \<^item> \<open>create_head_error\<close>, \<open>checkout_error\<close>, \<open>remote_error\<close>, \<open>push_error\<close>,
    \<open>raise_if_error_error\<close>: \<open>Some e\<close> when the call raises the exception \<open>e\<close>
    (a \<^verbatim>\<open>GitCommandError\<close> when git fails, \<^verbatim>\<open>ValueError\<close> when the remote
    \<^verbatim>\<open>origin\<close> does not exist, \<^verbatim>\<open>OSError\<close> or \<^verbatim>\<open>ValueError\<close> for a branch name
    that clashes or is not valid), \<open>None\<close> when it succeeds;
  \<^item> \<open>confirm_answer\<close>, \<open>prompt_answer\<close>: what the user answers to
    \<^verbatim>\<open>click.confirm\<close> and \<^verbatim>\<open>click.prompt\<close>, or \<open>None\<close> when the input ends or
    is interrupted, where both raise \<^verbatim>\<open>click.Abort\<close>.
\<close>

record world =
  repo_found :: "repo option"
  create_head_error :: "exn option"
  checkout_error :: "exn option"
  remote_error :: "exn option"
  push_error :: "exn option"
  raise_if_error_error :: "exn option"
  confirm_answer :: "bool option"
  prompt_answer :: "string option"

definition Repo :: "world \<Rightarrow> repo io" where
  "Repo w = (case repo_found w of None \<Rightarrow> raise InvalidGitRepositoryError | Some r \<Rightarrow> ret r)"

definition create_head :: "world \<Rightarrow> string \<Rightarrow> unit io" where
  "create_head w name =
     (case create_head_error w of
        Some e \<Rightarrow> raise e
      | None \<Rightarrow> emit (Create_head name))"

definition checkout :: "world \<Rightarrow> string \<Rightarrow> unit io" where
  "checkout w name =
     (case checkout_error w of
        Some e \<Rightarrow> raise e
      | None \<Rightarrow> emit (Checkout name))"

definition remote :: "world \<Rightarrow> unit io" where
  "remote w =
     (case remote_error w of
        Some e \<Rightarrow> raise e
      | None \<Rightarrow> ret ())"

definition push :: "world \<Rightarrow> string \<Rightarrow> unit io" where
  "push w refspec =
     (case push_error w of
        Some e \<Rightarrow> raise e
      | None \<Rightarrow> emit (Push refspec))"

definition raise_if_error :: "world \<Rightarrow> unit io" where
  "raise_if_error w =
     (case raise_if_error_error w of
        Some e \<Rightarrow> raise e
      | None \<Rightarrow> ret ())"

definition close :: "unit io" where
  "close = emit Close"

definition confirm :: "world \<Rightarrow> string \<Rightarrow> bool io" where
  "confirm w question =
     seq_io (emit (Confirm question))
       (case confirm_answer w of
          None \<Rightarrow> raise Abort
        | Some answer \<Rightarrow> ret answer)"

definition prompt :: "world \<Rightarrow> string \<Rightarrow> string io" where
  "prompt w question =
     seq_io (emit (Prompt question))
       (case prompt_answer w of
          None \<Rightarrow> raise Abort
        | Some answer \<Rightarrow> ret answer)"

subsection \<open>The messages\<close>

text \<open>The apostrophe, and the em dash of the dirty-tree message (three bytes in UTF-8).\<close>

definition apos :: string where
  "apos = [CHR 0x27]"

definition em_dash :: string where
  "em_dash = [CHR 0xE2, CHR 0x80, CHR 0x94]"

definition msg_dirty :: string where
  "msg_dirty = ''Working tree is dirty '' @ em_dash @ '' uncommitted changes present.''"

definition msg_no_commit :: string where
  "msg_no_commit = ''Please make an initial commit before using gibr.''"

definition msg_detached :: string where
  "msg_detached = ''HEAD is detached (not on a branch).''"

definition msg_checked_out :: "string \<Rightarrow> string" where
  "msg_checked_out branch_name =
     ''Branch '' @ apos @ branch_name @ apos @ '' already exists and is checked out''"

definition msg_exists :: "string \<Rightarrow> string" where
  "msg_exists branch_name =
     ''Branch '' @ apos @ branch_name @ apos @ '' already exists locally.''"

definition msg_dry_suffix :: "string \<Rightarrow> string" where
  "msg_dry_suffix branch_name =
     ''[DRY RUN] Would prompt to create branch with suffix since '' @ apos @ branch_name
       @ apos @ '' exists.''"

definition msg_instead :: "string \<Rightarrow> string" where
  "msg_instead new_name = ''Creating new branch '' @ apos @ new_name @ apos @ '' instead.''"

definition msg_canceled :: string where
  "msg_canceled = ''Operation canceled by user.''"

definition msg_dry_create :: "string \<Rightarrow> string \<Rightarrow> string" where
  "msg_dry_create branch_name current_branch =
     ''[DRY RUN] Would create branch '' @ apos @ branch_name @ apos @ '' from ''
       @ current_branch @ ''.''"

definition msg_dry_checkout :: "string \<Rightarrow> string" where
  "msg_dry_checkout branch_name = ''[DRY RUN] Would checkout branch: '' @ branch_name"

definition msg_dry_push :: "string \<Rightarrow> string" where
  "msg_dry_push branch_name =
     ''[DRY RUN] Would push branch '' @ apos @ branch_name @ apos @ '' to origin.''"

definition msg_created :: "string \<Rightarrow> string \<Rightarrow> string" where
  "msg_created branch_name current_branch =
     ''Created branch '' @ apos @ branch_name @ apos @ '' from '' @ current_branch @ ''.''"

definition msg_checkout :: "string \<Rightarrow> string" where
  "msg_checkout branch_name = ''Checked out branch: '' @ branch_name"

definition msg_pushed :: "string \<Rightarrow> string" where
  "msg_pushed branch_name =
     ''Pushed branch '' @ apos @ branch_name @ apos @ '' to origin.''"

definition msg_not_a_repo :: string where
  "msg_not_a_repo = ''Not a git repository (or any of the parent directories).''"

definition msg_git_failed :: "string \<Rightarrow> string" where
  "msg_git_failed e = ''Git command failed: '' @ e"

subsection \<open>The workflow\<close>

text \<open>
  \<^verbatim>\<open>_validate_repo_state(repo)\<close>:
  \<^verbatim>\<open>
  if repo.is_dirty(untracked_files=False):
      warning("Working tree is dirty ...")
  if not repo.head.is_valid():
      error("Please make an initial commit before using gibr.")
      return False
  if repo.head.is_detached:
      warning("HEAD is detached (not on a branch).")
  return True
  \<close>
\<close>

definition validate_repo_state :: "repo \<Rightarrow> bool io" where
  "validate_repo_state repo =
     seq_io (if is_dirty repo then warning msg_dirty else ret ())
       (if \<not> head_is_valid repo then
          seq_io (error msg_no_commit) (ret False)
        else
          seq_io (if head_is_detached repo then warning msg_detached else ret ())
            (ret True))"

text \<open>
  \<^verbatim>\<open>_handle_existing_branch(repo, branch_name, dry_run)\<close>:
  \<^verbatim>\<open>
  current_branch = repo.active_branch.name
  if current_branch == branch_name:
      warning(f"Branch '{branch_name}' already exists and is checked out")
      return None
  warning(f"Branch '{branch_name}' already exists locally.")
  if dry_run:
      info(f"[DRY RUN] Would prompt to create branch with suffix since '{branch_name}' exists.")
      return None
  if click.confirm("Would you like to create a new branch with a suffix?", default=True):
      suffix = click.prompt("Enter suffix", default="take2", show_default=True)
      new_name = f"{branch_name}-{suffix}"
      info(f"Creating new branch '{new_name}' instead.")
      return new_name
  info("Operation canceled by user.")
  return None
  \<close>
\<close>

definition handle_existing_branch :: "world \<Rightarrow> repo \<Rightarrow> string \<Rightarrow> bool \<Rightarrow> string option io" where
  "handle_existing_branch w repo branch_name dry_run =
     bind_io (active_branch_name repo)
       (\<lambda>current_branch.
          if current_branch = branch_name then
            seq_io (warning (msg_checked_out branch_name)) (ret None)
          else
            seq_io (warning (msg_exists branch_name))
              (if dry_run then
                 seq_io (info (msg_dry_suffix branch_name)) (ret None)
               else
                 bind_io (confirm w ''Would you like to create a new branch with a suffix?'')
                   (\<lambda>yes.
                      if yes then
                        bind_io (prompt w ''Enter suffix'')
                          (\<lambda>suffix.
                             let new_name = branch_name @ ''-'' @ suffix in
                             seq_io (info (msg_instead new_name)) (ret (Some new_name)))
                      else
                        seq_io (info msg_canceled) (ret None))))"

text \<open>
  The EXECUTE phase, lines 83 to 108 of \<^verbatim>\<open>create_and_push_branch\<close>:
  \<^verbatim>\<open>
  if dry_run:
      info(f"[DRY RUN] Would create branch '{branch_name}' from {current_branch}.")
      info(f"[DRY RUN] Would checkout branch: {branch_name}")
      if is_push:
          info(f"[DRY RUN] Would push branch '{branch_name}' to origin.")
      repo.close()
      return
  new_branch = repo.create_head(branch_name)
  success(f"Created branch '{branch_name}' from {current_branch}.")
  new_branch.checkout()
  success(f"Checked out branch: {branch_name}")
  if is_push:
      origin = repo.remote(name="origin")
      push_result = origin.push(refspec=f"{branch_name}:{branch_name}", set_upstream=True)
      push_result.raise_if_error()
      success(f"Pushed branch '{branch_name}' to origin.")
  repo.close()
  \<close>
\<close>

definition execute :: "world \<Rightarrow> string \<Rightarrow> string \<Rightarrow> bool \<Rightarrow> bool \<Rightarrow> unit io" where
  "execute w branch_name current_branch is_push dry_run =
     (if dry_run then
        seq_io (info (msg_dry_create branch_name current_branch))
       (seq_io (info (msg_dry_checkout branch_name))
       (seq_io (if is_push then info (msg_dry_push branch_name) else ret ())
        close))
      else
        seq_io (create_head w branch_name)
       (seq_io (success (msg_created branch_name current_branch))
       (seq_io (checkout w branch_name)
       (seq_io (success (msg_checkout branch_name))
       (seq_io (if is_push then
                  seq_io (remote w)
                 (seq_io (push w (branch_name @ '':'' @ branch_name))
                 (seq_io (raise_if_error w)
                  (success (msg_pushed branch_name))))
                else ret ())
        close)))))"

text \<open>
  The body of the \<^verbatim>\<open>try\<close> of \<^verbatim>\<open>create_and_push_branch\<close>, lines 66 to 108:
  \<^verbatim>\<open>
  repo = Repo(".", search_parent_directories=True)
  if not _validate_repo_state(repo):
      repo.close()
      return
  current_branch = repo.active_branch.name
  if branch_name in repo.heads:
      result = _handle_existing_branch(repo, branch_name, dry_run)
      if result is None:
          repo.close()
          return
      branch_name = result
  ... the EXECUTE phase ...
  \<close>
\<close>

definition try_body :: "world \<Rightarrow> string \<Rightarrow> bool \<Rightarrow> bool \<Rightarrow> unit io" where
  "try_body w branch_name is_push dry_run =
     bind_io (Repo w)
       (\<lambda>repo.
          bind_io (validate_repo_state repo)
            (\<lambda>valid.
               if \<not> valid then close
               else
                 bind_io (active_branch_name repo)
                   (\<lambda>current_branch.
                      if branch_name \<in> set (heads repo) then
                        bind_io (handle_existing_branch w repo branch_name dry_run)
                          (\<lambda>result.
                             case result of
                               None \<Rightarrow> close
                             | Some new_name \<Rightarrow>
                                 execute w new_name current_branch is_push dry_run)
                      else execute w branch_name current_branch is_push dry_run)))"

text \<open>
  \<^verbatim>\<open>create_and_push_branch(branch_name, is_push, dry_run)\<close>: the \<^verbatim>\<open>try\<close> with its
  two handlers,
  \<^verbatim>\<open>
  except InvalidGitRepositoryError:
      error("Not a git repository (or any of the parent directories).")
  except GitCommandError as e:
      error(f"Git command failed: {e}")
  \<close>
  Any other exception, \<^verbatim>\<open>click.Abort\<close> among them, leaves the function as it is.
\<close>

definition except_handlers :: "exn \<Rightarrow> unit io" where
  "except_handlers e =
     (case e of
        InvalidGitRepositoryError \<Rightarrow> error msg_not_a_repo
      | GitCommandError m \<Rightarrow> error (msg_git_failed m)
      | _ \<Rightarrow> raise e)"

definition create_and_push_branch :: "world \<Rightarrow> string \<Rightarrow> bool \<Rightarrow> bool \<Rightarrow> unit io" where
  "create_and_push_branch w branch_name is_push dry_run =
     catch_io (try_body w branch_name is_push dry_run) except_handlers"

subsection \<open>Reading a trace\<close>

definition infos :: "event list \<Rightarrow> string list" where
  "infos t = [m. Info m \<leftarrow> t]"

definition successes :: "event list \<Rightarrow> string list" where
  "successes t = [m. Success m \<leftarrow> t]"

definition warnings :: "event list \<Rightarrow> string list" where
  "warnings t = [m. Warning m \<leftarrow> t]"

definition errors :: "event list \<Rightarrow> string list" where
  "errors t = [m. Error m \<leftarrow> t]"

text \<open>The calls that change the repository or the remote.\<close>

fun is_mutation :: "event \<Rightarrow> bool" where
  "is_mutation (Create_head _) = True"
| "is_mutation (Checkout _) = True"
| "is_mutation (Push _) = True"
| "is_mutation _ = False"

definition mutations :: "event list \<Rightarrow> event list" where
  "mutations t = filter is_mutation t"

definition closes :: "event list \<Rightarrow> nat" where
  "closes t = count_list t Close"

text \<open>
  What is written to standard output: the messages of the notification sink, the
  questions of \<^verbatim>\<open>click.confirm\<close> and \<^verbatim>\<open>click.prompt\<close>, and what
  \<^verbatim>\<open>click.echo\<close>, \<^verbatim>\<open>click.echo_via_pager\<close> and \<^verbatim>\<open>safe_echo\<close> print.
\<close>

fun is_stdout :: "event \<Rightarrow> bool" where
  "is_stdout (Create_head _) = False"
| "is_stdout (Checkout _) = False"
| "is_stdout (Push _) = False"
| "is_stdout Close = False"
| "is_stdout _ = True"

definition stdout_writes :: "event list \<Rightarrow> event list" where
  "stdout_writes t = filter is_stdout t"

text \<open>The issue listing itself: what the three echo calls print.\<close>

fun is_echo :: "event \<Rightarrow> bool" where
  "is_echo (Echo _) = True"
| "is_echo (Echo_via_pager _) = True"
| "is_echo (Safe_echo _) = True"
| "is_echo _ = False"

definition echoes :: "event list \<Rightarrow> event list" where
  "echoes t = filter is_echo t"

section \<open>The issues command: \<^verbatim>\<open>gibr/cli/issues.py\<close>\<close>

text \<open>
  An issue record has the fields \<^verbatim>\<open>id\<close> (a string or an integer), \<^verbatim>\<open>type\<close>,
  \<^verbatim>\<open>title\<close> and \<^verbatim>\<open>assignee\<close> (a string or \<^verbatim>\<open>None\<close>). A table cell holds one of
  these values.
\<close>

datatype cell = Int_cell int | Str_cell string | None_cell

record issue =
  issue_id :: cell
  issue_type :: string
  title :: string
  assignee :: "string option"

text \<open>
  \<^verbatim>\<open>issues(ctx, output_json)\<close>:
  \<^verbatim>\<open>
  issues = tracker.list_issues()
  if not issues:
      warning("No open issues found.")
      return
  table = [[issue.id, issue.type, issue.title, issue.assignee] for issue in issues]
  if output_json:
      click.echo(json.dumps([asdict(issue) for issue in issues], indent=4))
  else:
      output = tabulate(table, headers=[...], tablefmt="github")
      if sys.stdout.isatty():
          click.echo_via_pager(output)
      else:
          safe_echo(output)
  \<close>
  The list the tracker returns, whether standard output is a terminal, and the two
  renderers \<^verbatim>\<open>json.dumps\<close> and \<^verbatim>\<open>tabulate\<close> are parameters.
\<close>

definition issues ::
    "issue list \<Rightarrow> bool \<Rightarrow> bool \<Rightarrow> (issue list \<Rightarrow> string) \<Rightarrow> (cell list list \<Rightarrow> string) \<Rightarrow> unit io" where
  "issues listed output_json isatty json_dumps tabulate =
     (if listed = [] then warning ''No open issues found.''
      else
        (let table =
           map (\<lambda>i. [issue_id i, Str_cell (issue_type i), Str_cell (title i),
                      (case assignee i of None \<Rightarrow> None_cell | Some a \<Rightarrow> Str_cell a)]) listed
         in
         if output_json then emit (Echo (json_dumps listed))
         else
           (let output = tabulate table in
            if isatty then emit (Echo_via_pager output)
            else emit (Safe_echo output))))"

section \<open>Sample inputs\<close>

text \<open>
  A clean repository on branch \<^verbatim>\<open>main\<close> with one commit, and a world in which it is
  found, every git call succeeds, and the user accepts the default suffix.
\<close>

definition repo_main :: repo where
  "repo_main = \<lparr>is_dirty = False, head_is_valid = True, head_is_detached = False,
     active_branch = ''main'', heads = [''main'']\<rparr>"

definition world_ok :: world where
  "world_ok = \<lparr>repo_found = Some repo_main, create_head_error = None, checkout_error = None,
     remote_error = None, push_error = None, raise_if_error_error = None,
     confirm_answer = Some True, prompt_answer = Some ''take2''\<rparr>"

text \<open>
  A part of the Unicode digit table, enough for the sample tokens: the ASCII digits, the
  superscript digits one, two and three, and the full-width digits.
\<close>

definition digit_sample :: "nat \<Rightarrow> bool" where
  "digit_sample c =
     ((48 \<le> c \<and> c \<le> 57) \<or> c = 178 \<or> c = 179 \<or> c = 185 \<or> (65296 \<le> c \<and> c \<le> 65305))"

section \<open>Properties of the ArgumentDispatcher\<close>

text \<open>
  The loop started at index \<open>length pre\<close> on \<open>pre @ xs\<close> leaves \<open>pre\<close> alone and
  decides on the first token of \<open>xs\<close> that does not start with \<^verbatim>\<open>--\<close>.
\<close>

lemma create_loop_append:
  "create_loop commands digit is_jira_issue is_linear_issue (length pre) (pre @ xs) =
     (case dropWhile (\<lambda>a. startswith a (str_of ''--'')) xs of
        [] \<Rightarrow> pre @ xs
      | t # rest \<Rightarrow>
          if commands t = None \<and> (isdigit digit t \<or> is_jira_issue t \<or> is_linear_issue t)
          then pre @ takeWhile (\<lambda>a. startswith a (str_of ''--'')) xs @ str_of ''create'' # t # rest
          else pre @ xs)"
proof (induction xs arbitrary: pre)
  case Nil
  show ?case by (subst create_loop.simps) simp
next
  case (Cons x xs)
  show ?case
  proof (cases "startswith x (str_of ''--'')")
    case False
    then show ?thesis
      by (subst create_loop.simps)
         (simp add: insert_at_def is_likely_non_digit_issue_def)
  next
    case True
    have "create_loop commands digit is_jira_issue is_linear_issue (length pre) (pre @ x # xs) =
          create_loop commands digit is_jira_issue is_linear_issue (length (pre @ [x])) ((pre @ [x]) @ xs)"
      using True by (subst create_loop.simps) simp
    also note Cons.IH [of "pre @ [x]"]
    finally show ?thesis
      using True
      by (cases "dropWhile (\<lambda>a. startswith a (str_of ''--'')) xs")
         (simp_all del: dropWhile_eq_Nil_conv)
  qed
qed

lemma handle_create_command_cases:
  "handle_create_command commands digit is_jira_issue is_linear_issue args =
     (case dropWhile (\<lambda>a. startswith a (str_of ''--'')) args of
        [] \<Rightarrow> args
      | t # rest \<Rightarrow>
          if commands t = None \<and> (isdigit digit t \<or> is_jira_issue t \<or> is_linear_issue t)
          then takeWhile (\<lambda>a. startswith a (str_of ''--'')) args @ str_of ''create'' # t # rest
          else args)"
  using create_loop_append [of commands digit is_jira_issue is_linear_issue "[]" args]
  by (cases "dropWhile (\<lambda>a. startswith a (str_of ''--'')) args")
     (simp_all add: handle_create_command_def del: dropWhile_eq_Nil_conv)

lemma handle_create_command_insert:
  "handle_create_command commands digit is_jira_issue is_linear_issue args = args \<or>
   handle_create_command commands digit is_jira_issue is_linear_issue args =
     insert_at (length (takeWhile (\<lambda>a. startswith a (str_of ''--'')) args)) (str_of ''create'') args"
proof (cases "dropWhile (\<lambda>a. startswith a (str_of ''--'')) args")
  case Nil
  then show ?thesis
    by (simp add: handle_create_command_cases del: dropWhile_eq_Nil_conv)
next
  case (Cons t rest)
  have "drop (length (takeWhile (\<lambda>a. startswith a (str_of ''--'')) args)) args = t # rest"
    using Cons by (simp add: dropWhile_eq_drop)
  moreover have "take (length (takeWhile (\<lambda>a. startswith a (str_of ''--'')) args)) args =
      takeWhile (\<lambda>a. startswith a (str_of ''--'')) args"
    by (rule takeWhile_eq_take [symmetric])
  ultimately show ?thesis
    using Cons by (simp add: handle_create_command_cases insert_at_def)
qed

text \<open>
  C6. The implicit-create pass looks at the first token that does not start with
  \<^verbatim>\<open>--\<close> only. If there is none, the list is returned unchanged. If that token is a
  registered subcommand, the list is returned unchanged. Otherwise, if the token is a
  digit string (for whatever the Unicode table \<open>digit\<close> calls a digit: the token is
  not empty and all its characters are digits) or one of the two tracker predicates
  accepts it, the token
  \<^verbatim>\<open>create\<close> is inserted immediately before it; in every other case the list is
  returned unchanged. The result is at most one token longer than the input.
\<close>

theorem handle_create_command_first_non_flag:
  "handle_create_command commands digit is_jira_issue is_linear_issue args =
     (case dropWhile (\<lambda>a. startswith a (str_of ''--'')) args of
        [] \<Rightarrow> args
      | t # rest \<Rightarrow>
          if t \<in> dom commands then args
          else if isdigit digit t \<or> is_jira_issue t \<or> is_linear_issue t
          then takeWhile (\<lambda>a. startswith a (str_of ''--'')) args @ str_of ''create'' # t # rest
          else args)
   \<and> length (handle_create_command commands digit is_jira_issue is_linear_issue args)
       \<le> length args + 1"
proof
  show "handle_create_command commands digit is_jira_issue is_linear_issue args =
     (case dropWhile (\<lambda>a. startswith a (str_of ''--'')) args of
        [] \<Rightarrow> args
      | t # rest \<Rightarrow>
          if t \<in> dom commands then args
          else if isdigit digit t \<or> is_jira_issue t \<or> is_linear_issue t
          then takeWhile (\<lambda>a. startswith a (str_of ''--'')) args @ str_of ''create'' # t # rest
          else args)"
    by (cases "dropWhile (\<lambda>a. startswith a (str_of ''--'')) args")
       (auto simp add: handle_create_command_cases simp del: dropWhile_eq_Nil_conv)
  show "length (handle_create_command commands digit is_jira_issue is_linear_issue args)
       \<le> length args + 1"
    using handle_create_command_insert [of commands digit is_jira_issue is_linear_issue args]
    by (auto simp add: insert_at_def)
qed

theorem handle_create_command_first_non_flag_witness:
  "handle_create_command [str_of ''issues'' \<mapsto> ()] digit_sample (\<lambda>_. False) (\<lambda>_. False)
       [str_of ''--verbose'', str_of ''123'']
     = [str_of ''--verbose'', str_of ''create'', str_of ''123'']
   \<and> handle_create_command [str_of ''issues'' \<mapsto> ()] digit_sample (\<lambda>_. False) (\<lambda>_. False)
       [[65297, 65298, 65299]]
     = [str_of ''create'', [65297, 65298, 65299]]
   \<and> handle_create_command [str_of ''issues'' \<mapsto> ()] digit_sample (\<lambda>_. False) (\<lambda>_. False)
       [str_of ''--verbose'', str_of ''issues'']
     = [str_of ''--verbose'', str_of ''issues'']
   \<and> handle_create_command [str_of ''issues'' \<mapsto> ()] digit_sample (\<lambda>_. False) (\<lambda>_. False)
       [str_of ''--verbose'', str_of ''abc'', str_of ''123'']
     = [str_of ''--verbose'', str_of ''abc'', str_of ''123'']"
  using
    handle_create_command_first_non_flag
      [of "[str_of ''issues'' \<mapsto> ()]" digit_sample "\<lambda>_. False" "\<lambda>_. False"
          "[str_of ''--verbose'', str_of ''123'']"]
    handle_create_command_first_non_flag
      [of "[str_of ''issues'' \<mapsto> ()]" digit_sample "\<lambda>_. False" "\<lambda>_. False"
          "[[65297, 65298, 65299]]"]
    handle_create_command_first_non_flag
      [of "[str_of ''issues'' \<mapsto> ()]" digit_sample "\<lambda>_. False" "\<lambda>_. False"
          "[str_of ''--verbose'', str_of ''issues'']"]
    handle_create_command_first_non_flag
      [of "[str_of ''issues'' \<mapsto> ()]" digit_sample "\<lambda>_. False" "\<lambda>_. False"
          "[str_of ''--verbose'', str_of ''abc'', str_of ''123'']"]
  by (simp add: startswith_def isdigit_def digit_sample_def str_of_def)

text \<open>
  C7. The alias-routing pass returns every token list whose first token is not
  \<^verbatim>\<open>git\<close> (the empty list included) as it is. On a list \<^verbatim>\<open>git\<close> followed by
  \<open>xs\<close> it drops \<^verbatim>\<open>git\<close> and returns the global flags of \<open>xs\<close> followed by the
  other tokens of \<open>xs\<close>, each group in the order it has in \<open>xs\<close>.
\<close>

theorem handle_git_alias_routing:
  "(args = [] \<or> hd args \<noteq> str_of ''git'' \<longrightarrow> handle_git_alias args = args)
   \<and> handle_git_alias (str_of ''git'' # xs) =
       filter (\<lambda>a. a \<in> set GLOBAL_FLAGS) xs @ filter (\<lambda>a. a \<notin> set GLOBAL_FLAGS) xs"
  by (cases args) (simp_all add: handle_git_alias_def)

theorem handle_git_alias_routing_witness:
  "handle_git_alias [str_of ''gibr'', str_of ''--verbose'', str_of ''create'', str_of ''123'']
     = [str_of ''gibr'', str_of ''--verbose'', str_of ''create'', str_of ''123'']
   \<and> handle_git_alias [str_of ''git'', str_of ''issues'', str_of ''--verbose'', str_of ''--json'']
     = [str_of ''--verbose'', str_of ''issues'', str_of ''--json'']"
  using handle_git_alias_routing
    [of "[str_of ''gibr'', str_of ''--verbose'', str_of ''create'', str_of ''123'']"
        "[str_of ''issues'', str_of ''--verbose'', str_of ''--json'']"]
  by (simp add: GLOBAL_FLAGS_def str_of_def)

text \<open>
  C9. The output of the implicit-create pass is either the input itself or the input with
  the one token \<^verbatim>\<open>create\<close> inserted at some position; so every token of the input is
  in the output, in its original relative order, and none is removed or rewritten.
\<close>

theorem handle_create_command_only_inserts:
  "(handle_create_command commands digit is_jira_issue is_linear_issue args = args \<or>
    (\<exists>i\<le>length args.
       handle_create_command commands digit is_jira_issue is_linear_issue args =
         take i args @ str_of ''create'' # drop i args))
   \<and> subseq args (handle_create_command commands digit is_jira_issue is_linear_issue args)"
proof -
  let ?n = "length (takeWhile (\<lambda>a. startswith a (str_of ''--'')) args)"
  have n: "?n \<le> length args"
    by (rule length_takeWhile_le)
  have emb: "subseq args (take ?n args @ str_of ''create'' # drop ?n args)"
  proof -
    have "subseq (take ?n args) (take ?n args)"
      by (rule subseq_order.order_refl)
    moreover have "subseq (drop ?n args) (str_of ''create'' # drop ?n args)"
      by (rule list_emb_Cons) (rule subseq_order.order_refl)
    ultimately have "subseq (take ?n args @ drop ?n args)
        (take ?n args @ str_of ''create'' # drop ?n args)"
      by (rule list_emb_append_mono)
    then show ?thesis by simp
  qed
  from handle_create_command_insert [of commands digit is_jira_issue is_linear_issue args]
  show ?thesis
  proof
    assume "handle_create_command commands digit is_jira_issue is_linear_issue args = args"
    then show ?thesis by simp
  next
    assume "handle_create_command commands digit is_jira_issue is_linear_issue args =
      insert_at ?n (str_of ''create'') args"
    with n emb show ?thesis
      unfolding insert_at_def by (intro conjI disjI2 exI [of _ ?n]) simp_all
  qed
qed

section \<open>Properties of the BranchWorkflow\<close>

lemmas io_defs = ret_def raise_def emit_def bind_io_def seq_io_def catch_io_def
  info_def success_def warning_def error_def
  Repo_def active_branch_name_def create_head_def checkout_def remote_def push_def
  raise_if_error_def close_def confirm_def prompt_def
lemmas workflow_defs = validate_repo_state_def handle_existing_branch_def execute_def
  try_body_def except_handlers_def create_and_push_branch_def
lemmas trace_defs = infos_def successes_def warnings_def errors_def mutations_def closes_def
  stdout_writes_def echoes_def
lemmas sample_defs = repo_main_def world_ok_def

text \<open>
  Where the handle is closed. Validation, the read of the active branch and conflict
  handling never close it; the EXECUTE phase closes it once when it returns and not at
  all when it raises. So a run that acquired the handle closes it once if it returns
  and never if it ends with an exception.
\<close>

lemma validate_repo_state_never_closes:
  "closes (snd (validate_repo_state r t)) = closes t"
  by (simp add: validate_repo_state_def io_defs closes_def)

lemma handle_existing_branch_never_closes:
  "closes (snd (handle_existing_branch w r b d t)) = closes t"
  by (simp add: handle_existing_branch_def io_defs closes_def Let_def split: option.split)

lemma execute_closes:
  "closes (snd (execute w b c p d t)) =
     closes t + (if fst (execute w b c p d t) = Inr () then 1 else 0)"
  by (simp add: execute_def io_defs closes_def split: option.split)

lemma try_body_closes:
  assumes "repo_found w = Some r"
  shows "closes (snd (try_body w b p d t)) =
     closes t + (if fst (try_body w b p d t) = Inr () then 1 else 0)"
proof -
  obtain v t1 where v: "validate_repo_state r t = (v, t1)"
    by (cases "validate_repo_state r t")
  with validate_repo_state_never_closes [of r t] have t1: "closes t1 = closes t"
    by simp
  obtain h t2 where h: "handle_existing_branch w r b d t1 = (h, t2)"
    by (cases "handle_existing_branch w r b d t1")
  with handle_existing_branch_never_closes [of w r b d t1] have t2: "closes t2 = closes t1"
    by simp
  show ?thesis
  proof (cases v)
    case (Inl e)
    with assms v t1 show ?thesis
      by (simp add: try_body_def Repo_def bind_io_def ret_def)
  next
    case (Inr valid)
    show ?thesis
    proof (cases "valid \<and> head_is_detached r")
      case True
      with assms v t1 Inr show ?thesis
        by (simp add: try_body_def Repo_def active_branch_name_def bind_io_def ret_def
            raise_def)
    next
      case attached: False
      show ?thesis
      proof (cases "valid \<and> b \<in> set (heads r)")
        case False
        with assms v t1 Inr attached execute_closes [of w b "active_branch r" p d t1]
        show ?thesis
          by (auto simp add: try_body_def Repo_def active_branch_name_def bind_io_def ret_def
              close_def emit_def closes_def)
      next
        case True
        show ?thesis
        proof (cases h)
          case (Inl e)
          with assms v t1 t2 h True attached \<open>v = Inr valid\<close> show ?thesis
            by (simp add: try_body_def Repo_def active_branch_name_def bind_io_def ret_def)
        next
          case res: (Inr result)
          show ?thesis
          proof (cases result)
            case None
            with assms v t1 t2 h True attached res \<open>v = Inr valid\<close> show ?thesis
              by (simp add: try_body_def Repo_def active_branch_name_def bind_io_def ret_def
                  close_def emit_def closes_def)
          next
            case (Some new_name)
            with assms v t1 t2 h True attached res \<open>v = Inr valid\<close>
              execute_closes [of w new_name "active_branch r" p d t2]
            show ?thesis
              by (simp add: try_body_def Repo_def active_branch_name_def bind_io_def ret_def)
          qed
        qed
      qed
    qed
  qed
qed

lemma handle_closed_iff_returns:
  assumes "repo_found w = Some r"
  shows "closes (snd (create_and_push_branch w b p d [])) =
     (if fst (create_and_push_branch w b p d []) = Inr () then 1 else 0)"
proof -
  obtain v t where v: "try_body w b p d [] = (v, t)"
    by (cases "try_body w b p d []")
  from try_body_closes [OF assms, of b p d "[]"] v
  have t: "closes t = (if v = Inr () then 1 else 0)"
    by (simp add: closes_def)
  show ?thesis
  proof (cases v)
    case (Inl e)
    with v t show ?thesis
      by (cases e)
         (simp_all add: create_and_push_branch_def catch_io_def except_handlers_def
           error_def seq_io_def bind_io_def emit_def raise_def closes_def)
  next
    case (Inr u)
    with v t show ?thesis
      by (simp add: create_and_push_branch_def catch_io_def)
  qed
qed

text \<open>
  C1. The claim is that the repository handle, once acquired, is closed exactly once on
  every exit path. The runs below show paths on which it is never closed: with an
  invalid HEAD the abort raised inside \<^verbatim>\<open>error\<close> leaves the function before the
  \<^verbatim>\<open>repo.close()\<close> of line 69; when \<^verbatim>\<open>create_head\<close> or the checkout fails with a
  git-command failure, the handler reports and aborts, and no \<^verbatim>\<open>repo.close()\<close> stands
  on that path. By \<open>handle_closed_iff_returns\<close> the same holds on every run that ends
  with an exception.
\<close>

theorem close_skipped_on_abort:
  "fst (create_and_push_branch
          (world_ok\<lparr>repo_found := Some (repo_main\<lparr>head_is_valid := False\<rparr>)\<rparr>)
          ''feature/test'' True False []) = Inl Abort
   \<and> closes (snd (create_and_push_branch
          (world_ok\<lparr>repo_found := Some (repo_main\<lparr>head_is_valid := False\<rparr>)\<rparr>)
          ''feature/test'' True False [])) = 0
   \<and> fst (create_and_push_branch
          (world_ok\<lparr>create_head_error := Some (GitCommandError ''exit code(128)'')\<rparr>)
          ''feature/error'' False False []) = Inl Abort
   \<and> closes (snd (create_and_push_branch
          (world_ok\<lparr>create_head_error := Some (GitCommandError ''exit code(128)'')\<rparr>)
          ''feature/error'' False False [])) = 0
   \<and> fst (create_and_push_branch
          (world_ok\<lparr>checkout_error := Some (GitCommandError ''exit code(1)'')\<rparr>)
          ''feature/error'' False False []) = Inl Abort
   \<and> closes (snd (create_and_push_branch
          (world_ok\<lparr>checkout_error := Some (GitCommandError ''exit code(1)'')\<rparr>)
          ''feature/error'' False False [])) = 0"
  by (simp add: io_defs workflow_defs trace_defs sample_defs)

text \<open>
  C2 as stated fails: outside a git repository the workflow reports through the error
  sink and the sink's abort leaves the function; it does not return to the caller.
\<close>

theorem not_a_repository_aborts:
  "create_and_push_branch (world_ok\<lparr>repo_found := None\<rparr>) ''feature/test'' True False []
     = (Inl Abort, [Error msg_not_a_repo])
   \<and> fst (create_and_push_branch (world_ok\<lparr>repo_found := None\<rparr>) ''feature/test'' True False [])
     \<noteq> Inr ()"
  by (simp add: io_defs workflow_defs sample_defs)

text \<open>
  C2, amended. When the handle cannot be acquired, the workflow emits the
  not-a-repository error and ends with the abort raised by the error sink; when the body
  of the \<^verbatim>\<open>try\<close> ends with a git-command failure, it emits the git-command-failed
  error and ends with the same abort. Both failure kinds abort.
\<close>

theorem both_failure_kinds_abort:
  "(repo_found w = None \<longrightarrow>
      create_and_push_branch w b p d t = (Inl Abort, t @ [Error msg_not_a_repo]))
   \<and> (try_body w b p d t = (Inl (GitCommandError m), t') \<longrightarrow>
      create_and_push_branch w b p d t = (Inl Abort, t' @ [Error (msg_git_failed m)]))"
  by (simp add: create_and_push_branch_def catch_io_def except_handlers_def error_def
      seq_io_def bind_io_def emit_def raise_def try_body_def Repo_def)

theorem both_failure_kinds_abort_witness:
  "create_and_push_branch (world_ok\<lparr>repo_found := None\<rparr>) ''feature/test'' True False []
     = (Inl Abort, [Error msg_not_a_repo])
   \<and> create_and_push_branch
       (world_ok\<lparr>create_head_error := Some (GitCommandError ''exit code(128)'')\<rparr>)
       ''feature/error'' False False []
     = (Inl Abort, [Error (msg_git_failed ''exit code(128)'')])"
  using
    both_failure_kinds_abort [of "world_ok\<lparr>repo_found := None\<rparr>" "''feature/test''" True False "[]"]
    both_failure_kinds_abort
      [of "world_ok\<lparr>create_head_error := Some (GitCommandError ''exit code(128)'')\<rparr>"
          "''feature/error''" False False "[]" "''exit code(128)''" "[]"]
  by (simp add: try_body_def validate_repo_state_def execute_def io_defs sample_defs)

text \<open>
  What a detached HEAD does. Validation passes with the detached-HEAD warning, and then
  the read of \<^verbatim>\<open>repo.active_branch.name\<close> on line 72 raises \<^verbatim>\<open>TypeError\<close>, which
  neither handler catches: the workflow never reaches the conflict check or the EXECUTE
  phase, whatever the requested name and the flags.
\<close>

lemma detached_head_never_executes:
  assumes "repo_found w = Some r" and "head_is_valid r" and "head_is_detached r"
  shows "create_and_push_branch w b p d t =
           (Inl TypeError,
            t @ (if is_dirty r then [Warning msg_dirty] else []) @ [Warning msg_detached])"
  using assms by (simp add: workflow_defs io_defs)

lemma invalid_head_aborts:
  assumes "repo_found w = Some r" and "\<not> head_is_valid r"
  shows "create_and_push_branch w b p d t =
           (Inl Abort,
            t @ (if is_dirty r then [Warning msg_dirty] else []) @ [Error msg_no_commit])"
  using assms by (simp add: workflow_defs io_defs)

text \<open>
  C3. The claim is that with a valid, detached HEAD and no name conflict the workflow
  warns and then goes on with the EXECUTE phase without failing. The two runs below, a
  dry run and a real one on a detached HEAD, emit the warning and then end with the
  uncaught \<^verbatim>\<open>TypeError\<close> of line 72: no informational or success message follows, no
  branch is created, and the handle is not closed.
\<close>

theorem detached_head_raises_type_error:
  "create_and_push_branch
     (world_ok\<lparr>repo_found := Some (repo_main\<lparr>head_is_detached := True\<rparr>)\<rparr>)
     ''feature/test'' False True []
   = (Inl TypeError, [Warning msg_detached])
   \<and> create_and_push_branch
     (world_ok\<lparr>repo_found := Some (repo_main\<lparr>head_is_detached := True\<rparr>)\<rparr>)
     ''feature/test'' True False []
   = (Inl TypeError, [Warning msg_detached])"
  by (simp add: io_defs workflow_defs sample_defs)

text \<open>
  C4 as stated fails: in dry-run with a valid repository state, when the requested name
  already exists locally (and is not the active branch), one informational message is
  emitted, the one about the suffix prompt, and none of the create, checkout and push
  messages.
\<close>

theorem dry_run_existing_branch_one_info:
  "infos (snd (create_and_push_branch
       (world_ok\<lparr>repo_found := Some (repo_main\<lparr>heads := [''main'', ''feature/existing'']\<rparr>)\<rparr>)
       ''feature/existing'' True True []))
     = [msg_dry_suffix ''feature/existing'']
   \<and> length (infos (snd (create_and_push_branch
       (world_ok\<lparr>repo_found := Some (repo_main\<lparr>heads := [''main'', ''feature/existing'']\<rparr>)\<rparr>)
       ''feature/existing'' True True []))) \<noteq> 3"
  by (simp add: io_defs workflow_defs trace_defs sample_defs)

text \<open>
  C4, amended. In every dry-run invocation no branch creation, checkout or push is
  performed. With a valid HEAD that is on a branch and a requested name that does not
  exist locally, exactly the create and checkout messages are emitted as informational
  messages, followed by the push message when push is requested: 2 messages without
  push, 3 with it. With a valid HEAD on a branch and a requested name that exists
  locally, none of these is emitted: the only informational message is the one about
  the suffix prompt, and there is none when the name is the active branch.
\<close>

theorem dry_run_no_mutation:
  "mutations (snd (create_and_push_branch w b p True [])) = []
   \<and> (repo_found w = Some r \<and> head_is_valid r \<and> \<not> head_is_detached r \<and> b \<notin> set (heads r)
        \<longrightarrow>
        infos (snd (create_and_push_branch w b p True [])) =
          [msg_dry_create b (active_branch r), msg_dry_checkout b]
            @ (if p then [msg_dry_push b] else [])
        \<and> length (infos (snd (create_and_push_branch w b p True []))) = (if p then 3 else 2))
   \<and> (repo_found w = Some r \<and> head_is_valid r \<and> \<not> head_is_detached r \<and> b \<in> set (heads r)
        \<longrightarrow>
        infos (snd (create_and_push_branch w b p True [])) =
          (if active_branch r = b then [] else [msg_dry_suffix b]))"
proof (intro conjI impI)
  show "mutations (snd (create_and_push_branch w b p True [])) = []"
    by (simp add: io_defs workflow_defs trace_defs Let_def split: option.split)
next
  assume "repo_found w = Some r \<and> head_is_valid r \<and> \<not> head_is_detached r
    \<and> b \<notin> set (heads r)"
  then show "infos (snd (create_and_push_branch w b p True [])) =
          [msg_dry_create b (active_branch r), msg_dry_checkout b]
            @ (if p then [msg_dry_push b] else [])"
    by (simp add: io_defs workflow_defs trace_defs)
  then show "length (infos (snd (create_and_push_branch w b p True []))) = (if p then 3 else 2)"
    by simp
next
  assume "repo_found w = Some r \<and> head_is_valid r \<and> \<not> head_is_detached r
    \<and> b \<in> set (heads r)"
  then show "infos (snd (create_and_push_branch w b p True [])) =
          (if active_branch r = b then [] else [msg_dry_suffix b])"
    by (simp add: io_defs workflow_defs trace_defs Let_def)
qed

theorem dry_run_no_mutation_witness:
  "mutations (snd (create_and_push_branch world_ok ''feature/123-test'' True True [])) = []
   \<and> infos (snd (create_and_push_branch world_ok ''feature/123-test'' True True [])) =
       [msg_dry_create ''feature/123-test'' ''main'', msg_dry_checkout ''feature/123-test'',
        msg_dry_push ''feature/123-test'']
   \<and> length (infos (snd (create_and_push_branch world_ok ''feature/123-test'' True True []))) = 3
   \<and> infos (snd (create_and_push_branch world_ok ''main'' True True [])) = []"
  using dry_run_no_mutation [of world_ok "''feature/123-test''" True repo_main]
    dry_run_no_mutation [of world_ok "''main''" True repo_main]
  by (simp add: sample_defs)

text \<open>
  A checkout happens only after validation has passed and line 72 has read the active
  branch: the HEAD of a run in which a branch was checked out is valid and not detached.
\<close>

lemma checkout_implies_attached:
  assumes "repo_found w = Some r"
    and "Checkout n \<in> set (snd (create_and_push_branch w b p d []))"
  shows "head_is_valid r \<and> \<not> head_is_detached r"
proof (rule ccontr)
  assume "\<not> (head_is_valid r \<and> \<not> head_is_detached r)"
  then consider "\<not> head_is_valid r" | "head_is_valid r" and "head_is_detached r"
    by blast
  then show False
  proof cases
    case 1
    with assms invalid_head_aborts [of w r b p d "[]"] show False
      by (simp split: if_splits)
  next
    case 2
    with assms detached_head_never_executes [of w r b p d "[]"] show False
      by (simp split: if_splits)
  qed
qed

text \<open>
  C5. In a non-dry-run invocation with push requested that reaches the EXECUTE phase
  (valid HEAD on a branch; no name conflict, or the user accepts a suffix), where branch
  creation, checkout and the lookup of the remote succeed and the push fails with a
  git-command failure (raised by \<^verbatim>\<open>push\<close> or by \<^verbatim>\<open>raise_if_error\<close>): the success
  messages are exactly the two for created and checked out, there is exactly one error
  message, it is the last event, and the run ends with the abort. By
  \<open>checkout_implies_attached\<close> every run in which the checkout happened has a valid
  HEAD on a branch.
\<close>

theorem push_failure_after_two_successes:
  assumes "repo_found w = Some r" and "head_is_valid r" and "\<not> head_is_detached r"
    and "b \<notin> set (heads r) \<and> b' = b \<or>
         (b \<in> set (heads r) \<and> active_branch r \<noteq> b \<and> confirm_answer w = Some True \<and>
          prompt_answer w = Some sfx \<and> b' = b @ ''-'' @ sfx)"
    and "create_head_error w = None" and "checkout_error w = None"
    and "remote_error w = None"
    and "push_error w = Some (GitCommandError m) \<or>
         (push_error w = None \<and> raise_if_error_error w = Some (GitCommandError m))"
  shows "fst (create_and_push_branch w b True False []) = Inl Abort
     \<and> successes (snd (create_and_push_branch w b True False [])) =
         [msg_created b' (active_branch r), msg_checkout b']
     \<and> errors (snd (create_and_push_branch w b True False [])) = [msg_git_failed m]
     \<and> last (snd (create_and_push_branch w b True False [])) = Error (msg_git_failed m)"
proof (cases "b \<in> set (heads r)")
  case False
  with assms show ?thesis
    by (auto simp add: io_defs workflow_defs trace_defs)
next
  case True
  with assms have "active_branch r \<noteq> b" and "confirm_answer w = Some True"
    and "prompt_answer w = Some sfx" and "b' = b @ ''-'' @ sfx"
    by auto
  with True assms show ?thesis
    by (auto simp add: io_defs workflow_defs trace_defs Let_def)
qed

theorem push_failure_after_two_successes_witness:
  "fst (create_and_push_branch (world_ok\<lparr>push_error := Some (GitCommandError ''exit code(128)'')\<rparr>)
         ''feature/push-error'' True False []) = Inl Abort
   \<and> successes (snd (create_and_push_branch
         (world_ok\<lparr>push_error := Some (GitCommandError ''exit code(128)'')\<rparr>)
         ''feature/push-error'' True False [])) =
       [msg_created ''feature/push-error'' ''main'', msg_checkout ''feature/push-error'']
   \<and> errors (snd (create_and_push_branch
         (world_ok\<lparr>push_error := Some (GitCommandError ''exit code(128)'')\<rparr>)
         ''feature/push-error'' True False [])) = [msg_git_failed ''exit code(128)'']
   \<and> last (snd (create_and_push_branch
         (world_ok\<lparr>push_error := Some (GitCommandError ''exit code(128)'')\<rparr>)
         ''feature/push-error'' True False [])) = Error (msg_git_failed ''exit code(128)'')"
  using push_failure_after_two_successes
    [of "world_ok\<lparr>push_error := Some (GitCommandError ''exit code(128)'')\<rparr>" repo_main
        "''feature/push-error''" "''feature/push-error''" "''take2''" "''exit code(128)''"]
  by (simp add: sample_defs)

text \<open>
  C8 as stated fails: with a dirty working tree the dirty-tree warning comes first, so
  two warnings are emitted when the requested branch is the one checked out.
\<close>

theorem checked_out_branch_dirty_two_warnings:
  "warnings (snd (create_and_push_branch
       (world_ok\<lparr>repo_found := Some (repo_main\<lparr>is_dirty := True\<rparr>)\<rparr>) ''main'' True False []))
     = [msg_dirty, msg_checked_out ''main'']
   \<and> length (warnings (snd (create_and_push_branch
       (world_ok\<lparr>repo_found := Some (repo_main\<lparr>is_dirty := True\<rparr>)\<rparr>) ''main'' True False [])))
     \<noteq> 1"
  by (simp add: io_defs workflow_defs trace_defs sample_defs)

text \<open>
  C8, amended. When the requested name exists locally and is the currently active
  branch (so HEAD is valid and on that branch), the workflow, dry-run or not, emits the
  dirty-tree warning if the tree is dirty, then the one already-checked-out warning,
  closes the handle and returns. No create, checkout or push happens and the EXECUTE
  phase is not entered. On a clean tree that warning is the only one.
\<close>

theorem checked_out_branch_noop:
  assumes "repo_found w = Some r" and "head_is_valid r" and "\<not> head_is_detached r"
    and "b \<in> set (heads r)" and "active_branch r = b"
  shows "create_and_push_branch w b p d [] =
           (Inr (),
            (if is_dirty r then [Warning msg_dirty] else [])
              @ [Warning (msg_checked_out b), Close])
     \<and> mutations (snd (create_and_push_branch w b p d [])) = []
     \<and> (\<not> is_dirty r \<longrightarrow>
          warnings (snd (create_and_push_branch w b p d [])) = [msg_checked_out b])"
proof -
  have run: "create_and_push_branch w b p d [] =
           (Inr (),
            (if is_dirty r then [Warning msg_dirty] else [])
              @ [Warning (msg_checked_out b), Close])"
    using assms by (simp add: io_defs workflow_defs Let_def)
  show ?thesis
    unfolding run by (simp add: trace_defs)
qed

theorem checked_out_branch_noop_witness:
  "create_and_push_branch
     (world_ok\<lparr>repo_found := Some (repo_main\<lparr>active_branch := ''feature/already-checked-out'',
        heads := [''feature/already-checked-out'']\<rparr>)\<rparr>)
     ''feature/already-checked-out'' True False []
   = (Inr (), [Warning (msg_checked_out ''feature/already-checked-out''), Close])
   \<and> warnings (snd (create_and_push_branch
     (world_ok\<lparr>repo_found := Some (repo_main\<lparr>active_branch := ''feature/already-checked-out'',
        heads := [''feature/already-checked-out'']\<rparr>)\<rparr>)
     ''feature/already-checked-out'' True False []))
   = [msg_checked_out ''feature/already-checked-out'']"
  using checked_out_branch_noop
    [of "world_ok\<lparr>repo_found := Some (repo_main\<lparr>active_branch := ''feature/already-checked-out'',
        heads := [''feature/already-checked-out'']\<rparr>)\<rparr>"
        "repo_main\<lparr>active_branch := ''feature/already-checked-out'',
        heads := [''feature/already-checked-out'']\<rparr>"
        "''feature/already-checked-out''" True False]
  by (simp add: sample_defs trace_defs)

section \<open>Properties of the issues command\<close>

text \<open>
  C10 as stated fails: on the empty list the command prints its warning through the
  notification sink, which writes to standard output; so there is output on standard
  output, with and without \<^verbatim>\<open>--json\<close>.
\<close>

theorem issues_empty_list_warning_on_stdout:
  "stdout_writes (snd (issues [] True False (\<lambda>_. ''[]'') (\<lambda>_. []) []))
     = [Warning ''No open issues found.'']
   \<and> stdout_writes (snd (issues [] True False (\<lambda>_. ''[]'') (\<lambda>_. []) [])) \<noteq> []"
  by (simp add: issues_def warning_def emit_def trace_defs)

text \<open>
  C10, amended. When the tracker returns the empty list, the issues command emits
  exactly one warning and returns; that warning is all it writes to standard output.
  It prints no issue listing, whatever the \<^verbatim>\<open>--json\<close> flag and whether or not
  standard output is a terminal: no table and no JSON array, not even an empty one.
\<close>

theorem issues_empty_list:
  "issues [] output_json isatty json_dumps tabulate [] =
     (Inr (), [Warning ''No open issues found.''])
   \<and> warnings (snd (issues [] output_json isatty json_dumps tabulate [])) =
       [''No open issues found.'']
   \<and> stdout_writes (snd (issues [] output_json isatty json_dumps tabulate [])) =
       [Warning ''No open issues found.'']
   \<and> echoes (snd (issues [] output_json isatty json_dumps tabulate [])) = []"
  by (simp add: issues_def warning_def emit_def trace_defs)

end
